theory Spec2Isabelle
  imports Complex_Main
begin

section \<open>JavaScript values\<close>

text \<open>
  Request bodies and MQTT payloads are parsed JSON, and the server stores what it receives
  without validation, so the telemetry record and the flow record hold arbitrary JavaScript
  values. An object is a function from property names to values in which \<open>JUndefined\<close>
  stands for an absent property: reading an absent property gives \<open>undefined\<close>, and
  \<open>JSON.stringify\<close> leaves out a property whose value is \<open>undefined\<close>, so the
  program cannot tell the two apart. A number is a real (JSON has no NaN).
\<close>

datatype jsval =
    JUndefined
  | JNull
  | JBool bool
  | JNum real
  | JStr string
  | JArr "jsval list"
  | JObj "string \<Rightarrow> jsval"

text \<open>Truthiness, as tested by \<open>if (v)\<close> and by \<open>a || b\<close>.\<close>

fun truthy :: "jsval \<Rightarrow> bool" where
  "truthy JUndefined = False"
| "truthy JNull = False"
| "truthy (JBool b) = b"
| "truthy (JNum r) = (r \<noteq> 0)"
| "truthy (JStr s) = (s \<noteq> [])"
| "truthy (JArr xs) = True"
| "truthy (JObj f) = True"

text \<open>\<open>a || b\<close>\<close>

definition js_or :: "jsval \<Rightarrow> jsval \<Rightarrow> jsval" where
  "js_or a b = (if truthy a then a else b)"

datatype js_error = TypeError

text \<open>
  \<open>v.k\<close> for the property names this program reads from a payload (\<open>count\<close>, the
  speed and traffic-light fields): none of them is an array index, \<open>length\<close> or a
  method of a primitive's prototype, so on anything but an object the read gives
  \<open>undefined\<close>, and on \<open>null\<close> it throws.
\<close>

fun get_prop :: "jsval \<Rightarrow> string \<Rightarrow> js_error + jsval" where
  "get_prop JUndefined k = Inl TypeError"
| "get_prop JNull k = Inl TypeError"
| "get_prop (JObj f) k = Inr (f k)"
| "get_prop v k = Inr JUndefined"

text \<open>
  \<open>v[k] = x\<close> in module (strict) code, for the vehicle-type names that the subscribed
  topics produce. On \<open>null\<close>, \<open>undefined\<close> and primitives the write throws; on an
  array a named property is created that its JSON form does not show.
\<close>

fun set_prop :: "jsval \<Rightarrow> string \<Rightarrow> jsval \<Rightarrow> js_error + jsval" where
  "set_prop (JObj f) k x = Inr (JObj (f(k := x)))"
| "set_prop (JArr xs) k x = Inr (JArr xs)"
| "set_prop v k x = Inl TypeError"

section \<open>The state of the server\<close>

datatype phase = Red | Yellow | Green

text \<open>The two own keys of \<open>trafficLights\<close>.\<close>

datatype light_key = Light1 | Light2

fun key_string :: "light_key \<Rightarrow> string" where
  "key_string Light1 = ''light1''"
| "key_string Light2 = ''light2''"

record light =
  ident :: string
  name :: string
  state :: phase
  direction :: string
  lastUpdated :: string

record lights =
  light1 :: light
  light2 :: light

record flow =
  mode :: jsval
  currentDirection :: jsval
  lastChanged :: string

text \<open>
  One reading of the clock, as \<open>new Date().toISOString()\<close> and as \<open>Date.now()\<close>. Every
  read of the clock within one run of a handler or callback gets the same reading.
\<close>

record clock =
  iso :: string
  ms :: nat

text \<open>
  The callbacks handed to \<open>setTimeout\<close>, each with what its closure captured. All are
  scheduled with the same delay of 1000 ms, so they run in the order they were scheduled.
\<close>

datatype task =
    GreenDone light_key
  | RedDone light_key
  | ToggleRedDone light_key
  | ToggleGreenDone light_key
  | FlowDone jsval
  | EmergencyDone

text \<open>
  A broadcast reason. The flow completion builds its reason with a template literal from the
  \<open>direction\<close> it received, which is an arbitrary JSON value; it is kept as the value.
\<close>

datatype reason = Tag string | FlowTag jsval

record payload =
  p_reason :: reason
  p_timestamp :: nat
  p_lights :: lights
  p_trafficFlow :: flow
  p_vehicleData :: "string \<Rightarrow> jsval"

text \<open>
  What the server does to the outside: a call of \<open>broadcastStateUpdate\<close>, the write of a
  snapshot to a subscriber's stream (or the failure of a write), a heartbeat frame, and the
  PATCH request of one gate field. Log lines are left out.
\<close>

datatype effect =
    BroadcastCall reason
  | SseWrite string payload
  | SseWriteFailed string
  | SseHeartbeat string nat
  | FirebasePatch string bool

record server_state =
  trafficLights :: lights
  trafficFlow :: flow
  vehicleData :: "string \<Rightarrow> jsval"
  firebaseIntegrationEnabled :: bool
  mirror1 :: bool
  mirror2 :: bool
  sseClients :: "string list"
  heartbeatTimers :: "string list"
  timers :: "task list"

record result =
  after :: server_state
  emitted :: "effect list"

record response =
  r_lights :: lights
  r_trafficFlow :: flow

record http_result = result +
  reply :: response

datatype http_error = NotFound

section \<open>Access to the two lights\<close>

text \<open>
  \<open>trafficLights[lightId]\<close> on the two own properties of the object. (A name that the
  object inherits from its prototype, such as \<open>constructor\<close>, is outside this model.)
\<close>

fun lookup_light :: "string \<Rightarrow> light_key option" where
  "lookup_light k =
     (if k = ''light1'' then Some Light1 else if k = ''light2'' then Some Light2 else None)"

fun light_of :: "light_key \<Rightarrow> lights \<Rightarrow> light" where
  "light_of Light1 ls = light1 ls"
| "light_of Light2 ls = light2 ls"

definition get_light :: "light_key \<Rightarrow> server_state \<Rightarrow> light" where
  "get_light k s = light_of k (trafficLights s)"

fun put_light :: "light_key \<Rightarrow> light \<Rightarrow> server_state \<Rightarrow> server_state" where
  "put_light Light1 l s = s\<lparr>trafficLights := (trafficLights s)\<lparr>light1 := l\<rparr>\<rparr>"
| "put_light Light2 l s = s\<lparr>trafficLights := (trafficLights s)\<lparr>light2 := l\<rparr>\<rparr>"

text \<open>\<open>light.state = p\<close>\<close>

definition set_state :: "light_key \<Rightarrow> phase \<Rightarrow> server_state \<Rightarrow> server_state" where
  "set_state k p s = put_light k ((get_light k s)\<lparr>state := p\<rparr>) s"

text \<open>\<open>light.lastUpdated = new Date().toISOString()\<close>\<close>

definition set_lastUpdated :: "light_key \<Rightarrow> clock \<Rightarrow> server_state \<Rightarrow> server_state" where
  "set_lastUpdated k now s = put_light k ((get_light k s)\<lparr>lastUpdated := iso now\<rparr>) s"

text \<open>\<open>setTimeout(callback, 1000)\<close>\<close>

definition setTimeout :: "task \<Rightarrow> server_state \<Rightarrow> server_state" where
  "setTimeout t s = s\<lparr>timers := timers s @ [t]\<rparr>"

section \<open>The broadcast hub\<close>

text \<open>The snapshot before \<open>JSON.stringify\<close>; its constant \<open>type\<close> field is left out.\<close>

definition createSSEPayload :: "reason \<Rightarrow> clock \<Rightarrow> server_state \<Rightarrow> payload" where
  "createSSEPayload r now s =
     \<lparr>p_reason = r, p_timestamp = ms now, p_lights = trafficLights s,
      p_trafficFlow = trafficFlow s, p_vehicleData = vehicleData s\<rparr>"

text \<open>
  The body of \<open>sseClients.forEach\<close>: one write per client; a write that throws clears the
  client's heartbeat interval and deletes the client. Whether a write throws is decided by
  the connection, given here as \<open>fails\<close> on client identifiers. The trace of a call of
  \<open>broadcastStateUpdate\<close> starts with the call itself, also when there is no subscriber
  and the function returns at once.
\<close>

definition send_to :: "payload \<Rightarrow> (string \<Rightarrow> bool) \<Rightarrow> string \<Rightarrow> result \<Rightarrow> result" where
  "send_to p fails c r =
     (if fails c
      then \<lparr>after = (after r)\<lparr>sseClients := removeAll c (sseClients (after r)),
                               heartbeatTimers := removeAll c (heartbeatTimers (after r))\<rparr>,
            emitted = emitted r @ [SseWriteFailed c]\<rparr>
      else \<lparr>after = after r, emitted = emitted r @ [SseWrite c p]\<rparr>)"

fun forEach_client :: "payload \<Rightarrow> (string \<Rightarrow> bool) \<Rightarrow> string list \<Rightarrow> result \<Rightarrow> result" where
  "forEach_client p fails [] r = r"
| "forEach_client p fails (c # cs) r = forEach_client p fails cs (send_to p fails c r)"

definition broadcastStateUpdate ::
  "reason \<Rightarrow> clock \<Rightarrow> (string \<Rightarrow> bool) \<Rightarrow> server_state \<Rightarrow> result" where
  "broadcastStateUpdate r now fails s =
     (if sseClients s = [] then \<lparr>after = s, emitted = [BroadcastCall r]\<rparr>
      else forEach_client (createSSEPayload r now s) fails (sseClients s)
             \<lparr>after = s, emitted = [BroadcastCall r]\<rparr>)"

text \<open>\<open>registerSSEClient\<close> and the stream route: the new client, whose identifier is the
  fresh \<open>randomUUID()\<close>, gets a heartbeat interval, joins the set and is sent the snapshot
  tagged \<open>initial\<close>.\<close>

definition registerSSEClient :: "string \<Rightarrow> server_state \<Rightarrow> server_state" where
  "registerSSEClient c s =
     s\<lparr>heartbeatTimers := heartbeatTimers s @ [c],
       sseClients := (if c \<in> set (sseClients s) then sseClients s else sseClients s @ [c])\<rparr>"

definition stream_connect :: "string \<Rightarrow> clock \<Rightarrow> server_state \<Rightarrow> result" where
  "stream_connect c now s =
     (let s1 = registerSSEClient c s
      in \<lparr>after = s1, emitted = [SseWrite c (createSSEPayload (Tag ''initial'') now s1)]\<rparr>)"

text \<open>The callback of a client's heartbeat interval: a frame with the time, or on a write
  that throws the removal of the client. A cleared interval does not fire.\<close>

definition heartbeat :: "string \<Rightarrow> clock \<Rightarrow> (string \<Rightarrow> bool) \<Rightarrow> server_state \<Rightarrow> result" where
  "heartbeat c now fails s =
     (if c \<notin> set (heartbeatTimers s) then \<lparr>after = s, emitted = []\<rparr>
      else if fails c
      then \<lparr>after = s\<lparr>heartbeatTimers := removeAll c (heartbeatTimers s),
                       sseClients := removeAll c (sseClients s)\<rparr>,
            emitted = [SseWriteFailed c]\<rparr>
      else \<lparr>after = s, emitted = [SseHeartbeat c (ms now)]\<rparr>)"

text \<open>The \<open>close\<close> handler of the request.\<close>

definition stream_close :: "string \<Rightarrow> server_state \<Rightarrow> server_state" where
  "stream_close c s =
     s\<lparr>heartbeatTimers := removeAll c (heartbeatTimers s),
       sseClients := removeAll c (sseClients s)\<rparr>"

section \<open>The external gate document\<close>

fun gateFieldName :: "string \<Rightarrow> string" where
  "gateFieldName gateKey =
     (if gateKey = ''gate1'' \<or> gateKey = ''light1'' then ''gate01''
      else if gateKey = ''gate2'' \<or> gateKey = ''light2'' then ''gate02''
      else gateKey)"

fun lightIdToGateKey :: "string \<Rightarrow> string option" where
  "lightIdToGateKey lightId =
     (if lightId = ''gate1'' \<or> lightId = ''light1'' then Some ''gate1''
      else if lightId = ''gate2'' \<or> lightId = ''light2'' then Some ''gate2''
      else None)"

fun gateKeyToLightId :: "string \<Rightarrow> string option" where
  "gateKeyToLightId gateKey =
     (if gateKey = ''gate1'' \<or> gateKey = ''light1'' then Some ''light1''
      else if gateKey = ''gate2'' \<or> gateKey = ''light2'' then Some ''light2''
      else None)"

fun booleanToLightState :: "bool \<Rightarrow> phase" where
  "booleanToLightState v = (if v then Green else Red)"

text \<open>
  \<open>process.env.X || default\<close>, and the flag computed from the two resolved settings at
  start-up. Both defaults are non-empty strings.
\<close>

definition env_or :: "string option \<Rightarrow> string \<Rightarrow> string" where
  "env_or e d = (case e of None \<Rightarrow> d | Some v \<Rightarrow> if v \<noteq> [] then v else d)"

definition integration_enabled :: "string \<Rightarrow> string \<Rightarrow> bool" where
  "integration_enabled project_id api_key = (project_id \<noteq> [] \<and> api_key \<noteq> [])"

text \<open>
  \<open>updateFirebaseGateState\<close> up to its first \<open>await\<close>: the PATCH request of one field.
  The call is never awaited by its callers.
\<close>

definition updateFirebaseGateState :: "string \<Rightarrow> bool \<Rightarrow> server_state \<Rightarrow> effect list" where
  "updateFirebaseGateState lightId isGreen s =
     (if \<not> firebaseIntegrationEnabled s then []
      else case lightIdToGateKey lightId of
             None \<Rightarrow> []
           | Some gateKey \<Rightarrow> [FirebasePatch (gateFieldName gateKey) isGreen])"

fun set_mirror :: "light_key \<Rightarrow> bool \<Rightarrow> server_state \<Rightarrow> server_state" where
  "set_mirror Light1 b s = s\<lparr>mirror1 := b\<rparr>"
| "set_mirror Light2 b s = s\<lparr>mirror2 := b\<rparr>"

text \<open>The rest of \<open>updateFirebaseGateState\<close>, run when the PATCH is answered: the mirror is
  written when the response is ok.\<close>

definition patch_answered :: "string \<Rightarrow> bool \<Rightarrow> bool \<Rightarrow> server_state \<Rightarrow> server_state" where
  "patch_answered lightId isGreen ok s =
     (if \<not> ok then s
      else case lightIdToGateKey lightId of
             None \<Rightarrow> s
           | Some gateKey \<Rightarrow>
               (case gateKeyToLightId gateKey of
                  None \<Rightarrow> s
                | Some l \<Rightarrow> (case lookup_light l of None \<Rightarrow> s | Some k \<Rightarrow> set_mirror k isGreen s)))"

text \<open>The callback of \<open>Object.entries(firebaseStates).forEach\<close>, with the flag
  \<open>stateChanged\<close> it closes over.\<close>

fun apply_entry ::
  "clock \<Rightarrow> string \<times> bool \<Rightarrow> server_state \<times> bool \<Rightarrow> server_state \<times> bool" where
  "apply_entry now (key, boolValue) (s, stateChanged) =
     (let lightId = (case gateKeyToLightId key of Some l \<Rightarrow> l | None \<Rightarrow> key)
      in case lookup_light lightId of
           None \<Rightarrow> (s, stateChanged)
         | Some k \<Rightarrow>
             (let s1 = set_mirror k boolValue s;
                  desiredState = booleanToLightState boolValue
              in if state (get_light k s1) \<noteq> desiredState
                 then (set_lastUpdated k now (set_state k desiredState s1), True)
                 else (s1, stateChanged)))"

definition applyFirebaseGateStates ::
  "(string \<times> bool) list option \<Rightarrow> string \<Rightarrow> clock \<Rightarrow> (string \<Rightarrow> bool) \<Rightarrow> server_state \<Rightarrow> result"
where
  "applyFirebaseGateStates firebaseStates origin now fails s =
     (case firebaseStates of
        None \<Rightarrow> \<lparr>after = s, emitted = []\<rparr>
      | Some entries \<Rightarrow>
          (let done = fold (apply_entry now) entries (s, False)
           in if snd done
              then broadcastStateUpdate (Tag (''firebase:'' @ origin)) now fails (fst done)
              else \<lparr>after = fst done, emitted = []\<rparr>))"

text \<open>
  \<open>syncGatesFromFirebase\<close> after its \<open>await\<close>: \<open>fetched\<close> is what
  \<open>fetchGateStatesFromFirebase\<close> returned, \<open>None\<close> for \<open>null\<close> (the request failed), else
  the two booleans of \<open>{light1, light2}\<close>.
\<close>

definition syncGatesFromFirebase ::
  "string \<Rightarrow> (bool \<times> bool) option \<Rightarrow> clock \<Rightarrow> (string \<Rightarrow> bool) \<Rightarrow> server_state \<Rightarrow> result"
where
  "syncGatesFromFirebase reason fetched now fails s =
     (if \<not> firebaseIntegrationEnabled s then \<lparr>after = s, emitted = []\<rparr>
      else case fetched of
             None \<Rightarrow> \<lparr>after = s, emitted = []\<rparr>
           | Some (g1, g2) \<Rightarrow>
               applyFirebaseGateStates (Some [(''light1'', g1), (''light2'', g2)]) reason now fails s)"

section \<open>Light control\<close>

definition otherLightId :: "light_key \<Rightarrow> light_key" where
  "otherLightId lightId = (if lightId = Light1 then Light2 else Light1)"

text \<open>\<open>res.json({ lights: trafficLights, trafficFlow })\<close>, the last statement of a handler.\<close>

definition respond :: "result \<Rightarrow> http_result" where
  "respond r =
     \<lparr>after = after r, emitted = emitted r,
      reply = \<lparr>r_lights = trafficLights (after r), r_trafficFlow = trafficFlow (after r)\<rparr>\<rparr>"

text \<open>Effects that a callback produces before it calls the broadcast.\<close>

definition emit_first :: "effect list \<Rightarrow> result \<Rightarrow> result" where
  "emit_first es r = \<lparr>after = after r, emitted = es @ emitted r\<rparr>"

text \<open>The handler of \<open>POST /api/lights/:lightId/control\<close> once the light is found.\<close>

definition control_light ::
  "light_key \<Rightarrow> jsval \<Rightarrow> clock \<Rightarrow> (string \<Rightarrow> bool) \<Rightarrow> server_state \<Rightarrow> http_result" where
  "control_light lightId action now fails s =
     (let otherLight = otherLightId lightId; lid = key_string lightId in
      if action = JStr ''green'' then
        (let s1 = set_lastUpdated lightId now (set_state lightId Yellow s);
             s2 = (if state (get_light otherLight s1) = Green
                   then set_lastUpdated otherLight now (set_state otherLight Yellow s1)
                   else s1);
             s3 = setTimeout (GreenDone lightId) s2
         in respond (broadcastStateUpdate (Tag (''control:'' @ lid @ '':yellow'')) now fails s3))
      else if action = JStr ''red'' then
        (let s1 = set_lastUpdated lightId now (set_state lightId Yellow s);
             s2 = setTimeout (RedDone lightId) s1
         in respond (broadcastStateUpdate (Tag (''control:'' @ lid @ '':yellow'')) now fails s2))
      else if action = JStr ''yellow'' then
        (let s1 = set_lastUpdated lightId now (set_state lightId Yellow s)
         in respond (broadcastStateUpdate (Tag (''control:'' @ lid @ '':yellow'')) now fails s1))
      else if action = JStr ''toggle'' then
        (if state (get_light lightId s) = Green then
           (let s1 = set_lastUpdated lightId now (set_state lightId Yellow s);
                s2 = setTimeout (ToggleRedDone lightId) s1
            in respond (broadcastStateUpdate (Tag (''control:'' @ lid @ '':yellow'')) now fails s2))
         else if state (get_light lightId s) = Red then
           (let s1 = set_lastUpdated lightId now (set_state lightId Yellow s);
                s2 = (if state (get_light otherLight s1) = Green
                      then set_lastUpdated otherLight now (set_state otherLight Yellow s1)
                      else s1);
                s3 = setTimeout (ToggleGreenDone lightId) s2
            in respond (broadcastStateUpdate (Tag (''control:'' @ lid @ '':yellow'')) now fails s3))
         else
           (let s1 = set_lastUpdated lightId now (set_state lightId Red s)
            in respond (emit_first (updateFirebaseGateState lid False s1)
                 (broadcastStateUpdate (Tag (''control:'' @ lid @ '':red'')) now fails s1))))
      else respond \<lparr>after = s, emitted = []\<rparr>)"

text \<open>The route: an unknown light is answered with status 404 and nothing else happens.\<close>

definition control ::
  "string \<Rightarrow> jsval \<Rightarrow> clock \<Rightarrow> (string \<Rightarrow> bool) \<Rightarrow> server_state \<Rightarrow> http_error + http_result" where
  "control lightId action now fails s =
     (case lookup_light lightId of
        None \<Rightarrow> Inl NotFound
      | Some k \<Rightarrow> Inr (control_light k action now fails s))"

text \<open>
  The same handler in \<open>src/backend/Server.js\<close>, an earlier version of the server without the
  event stream and without the gate document: the same writes and timeouts, no effect.
\<close>

definition Server_control_light ::
  "light_key \<Rightarrow> jsval \<Rightarrow> clock \<Rightarrow> server_state \<Rightarrow> http_result" where
  "Server_control_light lightId action now s =
     (let otherLight = otherLightId lightId in
      if action = JStr ''green'' then
        (let s1 = set_lastUpdated lightId now (set_state lightId Yellow s);
             s2 = (if state (get_light otherLight s1) = Green
                   then set_lastUpdated otherLight now (set_state otherLight Yellow s1)
                   else s1);
             s3 = setTimeout (GreenDone lightId) s2
         in respond \<lparr>after = s3, emitted = []\<rparr>)
      else if action = JStr ''red'' then
        (let s1 = set_lastUpdated lightId now (set_state lightId Yellow s);
             s2 = setTimeout (RedDone lightId) s1
         in respond \<lparr>after = s2, emitted = []\<rparr>)
      else if action = JStr ''yellow'' then
        (let s1 = set_lastUpdated lightId now (set_state lightId Yellow s)
         in respond \<lparr>after = s1, emitted = []\<rparr>)
      else if action = JStr ''toggle'' then
        (if state (get_light lightId s) = Green then
           (let s1 = set_lastUpdated lightId now (set_state lightId Yellow s);
                s2 = setTimeout (ToggleRedDone lightId) s1
            in respond \<lparr>after = s2, emitted = []\<rparr>)
         else if state (get_light lightId s) = Red then
           (let s1 = set_lastUpdated lightId now (set_state lightId Yellow s);
                s2 = (if state (get_light otherLight s1) = Green
                      then set_lastUpdated otherLight now (set_state otherLight Yellow s1)
                      else s1);
                s3 = setTimeout (ToggleGreenDone lightId) s2
            in respond \<lparr>after = s3, emitted = []\<rparr>)
         else
           (let s1 = set_lastUpdated lightId now (set_state lightId Red s)
            in respond \<lparr>after = s1, emitted = []\<rparr>))
      else respond \<lparr>after = s, emitted = []\<rparr>)"

definition Server_control ::
  "string \<Rightarrow> jsval \<Rightarrow> clock \<Rightarrow> server_state \<Rightarrow> http_error + http_result" where
  "Server_control lightId action now s =
     (case lookup_light lightId of
        None \<Rightarrow> Inl NotFound
      | Some k \<Rightarrow> Inr (Server_control_light k action now s))"

text \<open>\<open>POST /api/traffic-flow\<close>; a field missing from the body is \<open>undefined\<close>.\<close>

definition traffic_flow ::
  "jsval \<Rightarrow> jsval \<Rightarrow> clock \<Rightarrow> (string \<Rightarrow> bool) \<Rightarrow> server_state \<Rightarrow> http_result" where
  "traffic_flow mode' direction' now fails s =
     (let s1 = (if truthy mode' then s\<lparr>trafficFlow := (trafficFlow s)\<lparr>mode := mode'\<rparr>\<rparr> else s) in
      if truthy direction' then
        (let s2 = s1\<lparr>trafficFlow := (trafficFlow s1)\<lparr>currentDirection := direction'\<rparr>\<rparr>;
             s3 = s2\<lparr>trafficFlow := (trafficFlow s2)\<lparr>lastChanged := iso now\<rparr>\<rparr>;
             s4 = set_state Light2 Yellow (set_state Light1 Yellow s3);
             s5 = set_lastUpdated Light2 now (set_lastUpdated Light1 now s4);
             s6 = setTimeout (FlowDone direction') s5
         in respond (broadcastStateUpdate (Tag ''traffic-flow:yellow-phase'') now fails s6))
      else respond \<lparr>after = s1, emitted = []\<rparr>)"

text \<open>\<open>POST /api/emergency-stop\<close>\<close>

definition emergency_stop :: "clock \<Rightarrow> (string \<Rightarrow> bool) \<Rightarrow> server_state \<Rightarrow> http_result" where
  "emergency_stop now fails s =
     (let s1 = set_state Light2 Yellow (set_state Light1 Yellow s);
          s2 = set_lastUpdated Light2 now (set_lastUpdated Light1 now s1);
          s3 = setTimeout EmergencyDone s2
      in respond (broadcastStateUpdate (Tag ''emergency-stop:yellow'') now fails s3))"

text \<open>The scheduled callbacks.\<close>

fun run_task :: "task \<Rightarrow> clock \<Rightarrow> (string \<Rightarrow> bool) \<Rightarrow> server_state \<Rightarrow> result" where
  "run_task (GreenDone lightId) now fails s =
     (let otherLight = otherLightId lightId;
          s1 = set_lastUpdated lightId now (set_state lightId Green s);
          s2 = (if state (get_light otherLight s1) \<noteq> Red
                then set_lastUpdated otherLight now (set_state otherLight Red s1)
                else s1)
      in emit_first (updateFirebaseGateState (key_string lightId) True s2
                     @ updateFirebaseGateState (key_string otherLight) False s2)
           (broadcastStateUpdate (Tag (''control:'' @ key_string lightId @ '':green'')) now fails s2))"
| "run_task (RedDone lightId) now fails s =
     (let s1 = set_lastUpdated lightId now (set_state lightId Red s)
      in emit_first (updateFirebaseGateState (key_string lightId) False s1)
           (broadcastStateUpdate (Tag (''control:'' @ key_string lightId @ '':red'')) now fails s1))"
| "run_task (ToggleRedDone lightId) now fails s =
     (let s1 = set_lastUpdated lightId now (set_state lightId Red s)
      in emit_first (updateFirebaseGateState (key_string lightId) False s1)
           (broadcastStateUpdate (Tag (''control:'' @ key_string lightId @ '':red'')) now fails s1))"
| "run_task (ToggleGreenDone lightId) now fails s =
     (let otherLight = otherLightId lightId;
          s1 = set_lastUpdated lightId now (set_state lightId Green s);
          s2 = (if state (get_light otherLight s1) \<noteq> Red
                then set_lastUpdated otherLight now (set_state otherLight Red s1)
                else s1)
      in emit_first (updateFirebaseGateState (key_string lightId) True s2
                     @ updateFirebaseGateState (key_string otherLight) False s2)
           (broadcastStateUpdate (Tag (''control:'' @ key_string lightId @ '':green'')) now fails s2))"
| "run_task (FlowDone direction') now fails s =
     (let s1 = set_state Light2 Green (set_state Light1 Green s);
          s2 = set_lastUpdated Light2 now (set_lastUpdated Light1 now s1)
      in emit_first (updateFirebaseGateState ''light1'' True s2
                     @ updateFirebaseGateState ''light2'' True s2)
           (broadcastStateUpdate (FlowTag direction') now fails s2))"
| "run_task EmergencyDone now fails s =
     (let s1 = set_state Light2 Red (set_state Light1 Red s);
          s2 = set_lastUpdated Light2 now (set_lastUpdated Light1 now s1)
      in emit_first (updateFirebaseGateState ''light1'' False s2
                     @ updateFirebaseGateState ''light2'' False s2)
           (broadcastStateUpdate (Tag ''emergency-stop:red'') now fails s2))"

text \<open>The oldest pending timeout fires.\<close>

definition timer_fires :: "clock \<Rightarrow> (string \<Rightarrow> bool) \<Rightarrow> server_state \<Rightarrow> result" where
  "timer_fires now fails s =
     (case timers s of
        [] \<Rightarrow> \<lparr>after = s, emitted = []\<rparr>
      | t # ts \<Rightarrow> run_task t now fails (s\<lparr>timers := ts\<rparr>))"

section \<open>Telemetry\<close>

text \<open>Decimal digits of an array index, as a property name.\<close>

fun show_nat :: "nat \<Rightarrow> string" where
  "show_nat n =
     (if n < 10 then [char_of (48 + n)] else show_nat (n div 10) @ [char_of (48 + n mod 10)])"

fun index_props :: "jsval list \<Rightarrow> nat \<Rightarrow> (string \<Rightarrow> jsval) \<Rightarrow> (string \<Rightarrow> jsval)" where
  "index_props [] i vd = vd"
| "index_props (x # xs) i vd = index_props xs (Suc i) (vd(show_nat i := x))"

text \<open>
  \<open>{ ...vehicleData, ...data }\<close>: the own enumerable properties of \<open>data\<close> overwrite
  those of the record. An array and a string spread their elements under their indices;
  \<open>null\<close>, numbers and booleans have none.
\<close>

fun spread :: "jsval \<Rightarrow> (string \<Rightarrow> jsval) \<Rightarrow> (string \<Rightarrow> jsval)" where
  "spread (JObj f) vd = (\<lambda>k. if f k \<noteq> JUndefined then f k else vd k)"
| "spread (JArr xs) vd = index_props xs 0 vd"
| "spread (JStr cs) vd = index_props (map (\<lambda>c. JStr [c]) cs) 0 vd"
| "spread v vd = vd"

definition MQTT_TOPIC_BASE :: string where
  "MQTT_TOPIC_BASE = ''traffic/vehicles''"

text \<open>The topics the client subscribes to; the broker delivers messages of these only.\<close>

definition topics :: "string list" where
  "topics =
     [MQTT_TOPIC_BASE, MQTT_TOPIC_BASE @ ''/car'', MQTT_TOPIC_BASE @ ''/truck'',
      MQTT_TOPIC_BASE @ ''/bus'', MQTT_TOPIC_BASE @ ''/motorcycle'',
      MQTT_TOPIC_BASE @ ''/emergency'', MQTT_TOPIC_BASE @ ''/traffic_light'',
      MQTT_TOPIC_BASE @ ''/speeds'']"

text \<open>\<open>topic.split('/')\<close>; the result is never empty, so \<open>pop()\<close> is its last element.\<close>

fun split_slash :: "string \<Rightarrow> string list" where
  "split_slash [] = [[]]"
| "split_slash (c # cs) =
     (if c = CHR ''/'' then [] # split_slash cs
      else (case split_slash cs of [] \<Rightarrow> [[c]] | w # ws \<Rightarrow> (c # w) # ws))"

text \<open>\<open>data.k\<close> where \<open>data\<close> is known not to be \<open>null\<close>.\<close>

definition field :: "jsval \<Rightarrow> string \<Rightarrow> jsval" where
  "field data k = (case get_prop data k of Inl e \<Rightarrow> JUndefined | Inr v \<Rightarrow> v)"

text \<open>
  The \<open>message\<close> handler of the MQTT client. \<open>parsed\<close> is the result of \<open>JSON.parse\<close>,
  \<open>None\<close> when it throws. Whatever throws inside the handler is caught and logged; every
  throw happens before the first write, so the state is then unchanged.
\<close>

definition on_message ::
  "string \<Rightarrow> jsval option \<Rightarrow> clock \<Rightarrow> (string \<Rightarrow> bool) \<Rightarrow> server_state \<Rightarrow> result" where
  "on_message topic parsed now fails s =
     (case parsed of
        None \<Rightarrow> \<lparr>after = s, emitted = []\<rparr>
      | Some data \<Rightarrow>
          if topic = MQTT_TOPIC_BASE then
            broadcastStateUpdate (Tag ''mqtt:vehicle-data'') now fails
              (s\<lparr>vehicleData := (spread data (vehicleData s))(''timestamp'' := JStr (iso now))\<rparr>)
          else if data = JNull \<or> data = JUndefined then \<lparr>after = s, emitted = []\<rparr>
          else if topic = MQTT_TOPIC_BASE @ ''/traffic_light'' then
            broadcastStateUpdate (Tag ''mqtt:traffic-light'') now fails
              (s\<lparr>vehicleData := (vehicleData s)
                   (''green_light_duration'' :=
                      js_or (field data ''green_light_duration'') (vehicleData s ''green_light_duration''),
                    ''vehicles_waiting'' :=
                      js_or (field data ''vehicles_waiting'') (vehicleData s ''vehicles_waiting''),
                    ''priority_vehicles'' :=
                      js_or (field data ''priority_vehicles'') (vehicleData s ''priority_vehicles''),
                    ''timestamp'' := JStr (iso now))\<rparr>)
          else if topic = MQTT_TOPIC_BASE @ ''/speeds'' then
            broadcastStateUpdate (Tag ''mqtt:speeds'') now fails
              (s\<lparr>vehicleData := (vehicleData s)
                   (''bspeed'' := js_or (field data ''bspeed'') (vehicleData s ''bspeed''),
                    ''cspeed'' := js_or (field data ''cspeed'') (vehicleData s ''cspeed''),
                    ''mspeed'' := js_or (field data ''mspeed'') (vehicleData s ''mspeed''),
                    ''tspeed'' := js_or (field data ''tspeed'') (vehicleData s ''tspeed''),
                    ''timestamp'' := JStr (iso now))\<rparr>)
          else
            (let vehicleType = last (split_slash topic); count = field data ''count'' in
             if count \<noteq> JUndefined then
               (case set_prop (vehicleData s ''vehicles_by_type'') vehicleType count of
                  Inl e \<Rightarrow> \<lparr>after = s, emitted = []\<rparr>
                | Inr by_type \<Rightarrow>
                    (let vd1 = (vehicleData s)(''vehicles_by_type'' := by_type);
                         vd2 = vd1(vehicleType @ ''_count'' := count);
                         vd3 = vd2(''timestamp'' := JStr (iso now))
                     in broadcastStateUpdate (Tag (''mqtt:'' @ vehicleType @ ''-count'')) now fails
                          (s\<lparr>vehicleData := vd3\<rparr>)))
             else \<lparr>after = s, emitted = []\<rparr>))"

text \<open>\<open>POST /api/vehicles\<close>; the response carries the merged record.\<close>

definition post_vehicles ::
  "jsval \<Rightarrow> clock \<Rightarrow> (string \<Rightarrow> bool) \<Rightarrow> server_state \<Rightarrow> result" where
  "post_vehicles data now fails s =
     broadcastStateUpdate (Tag ''vehicles:update'') now fails
       (s\<lparr>vehicleData := (spread data (vehicleData s))(''timestamp'' := JStr (iso now))\<rparr>)"

section \<open>Start-up and sample runs\<close>

text \<open>The module-level initial values; the two Firebase settings are the resolved constants.\<close>

definition no_props :: "string \<Rightarrow> jsval" where
  "no_props k = JUndefined"

definition initial_counts :: "string \<Rightarrow> jsval" where
  "initial_counts =
     no_props(''car'' := JNum 0, ''truck'' := JNum 0, ''bus'' := JNum 0,
              ''motorcycle'' := JNum 0, ''emergency'' := JNum 0)"

definition initial_vehicleData :: "clock \<Rightarrow> string \<Rightarrow> jsval" where
  "initial_vehicleData now =
     no_props
       (''bspeed'' := JNum 0, ''cspeed'' := JNum 0, ''mspeed'' := JNum 0, ''tspeed'' := JNum 0,
        ''total_vehicles_counted'' := JNum 0,
        ''vehicles_by_type'' := JObj initial_counts,
        ''car_count'' := JNum 0, ''truck_count'' := JNum 0, ''bus_count'' := JNum 0,
        ''motorcycle_count'' := JNum 0, ''emergency_count'' := JNum 0,
        ''vehicles_waiting'' := JNum 0, ''priority_vehicles'' := JNum 0,
        ''green_light_duration'' := JNum 20, ''vehicles_per_minute'' := JNum 0,
        ''anomalies'' := JArr [], ''timestamp'' := JStr (iso now))"

definition initial_state :: "clock \<Rightarrow> string \<Rightarrow> string \<Rightarrow> server_state" where
  "initial_state now project_id api_key =
     \<lparr>trafficLights =
        \<lparr>light1 = \<lparr>ident = ''light1'', name = ''Traffic Light 1'', state = Red,
                    direction = ''inbound'', lastUpdated = iso now\<rparr>,
         light2 = \<lparr>ident = ''light2'', name = ''Traffic Light 2'', state = Red,
                    direction = ''outbound'', lastUpdated = iso now\<rparr>\<rparr>,
      trafficFlow =
        \<lparr>mode = JStr ''automatic'', currentDirection = JStr ''inbound'', lastChanged = iso now\<rparr>,
      vehicleData = initial_vehicleData now,
      firebaseIntegrationEnabled = integration_enabled project_id api_key,
      mirror1 = False, mirror2 = False,
      sseClients = [], heartbeatTimers = [], timers = []\<rparr>"

text \<open>Two clock readings, a server just started, the same server with one subscriber, the
  started server with its first light green, a server with three subscribers, and connections on which every write succeeds,
  or only that of \<open>c2\<close> fails.\<close>

definition boot :: clock where
  "boot = \<lparr>iso = ''2025-01-01T00:00:00.000Z'', ms = 1735689600000\<rparr>"

definition later :: clock where
  "later = \<lparr>iso = ''2025-01-01T00:00:05.000Z'', ms = 1735689605000\<rparr>"

definition started :: server_state where
  "started = initial_state boot ''wastemanagement-fc678'' ''key''"

definition subscribed :: server_state where
  "subscribed = after (stream_connect ''c1'' boot started)"

definition green1 :: server_state where
  "green1 = set_state Light1 Green started"

definition three_clients :: server_state where
  "three_clients =
     after (stream_connect ''c3'' boot (after (stream_connect ''c2'' boot subscribed)))"

definition all_writes_succeed :: "string \<Rightarrow> bool" where
  "all_writes_succeed c = False"

definition c2_fails :: "string \<Rightarrow> bool" where
  "c2_fails c = (c = ''c2'')"

text \<open>Two payloads: \<open>{count: 7}\<close>, and a traffic-light message with a duration, a zero
  and no \<open>priority_vehicles\<close>.\<close>

definition truck_message :: jsval where
  "truck_message = JObj (no_props(''count'' := JNum 7))"

definition light_message :: jsval where
  "light_message =
     JObj (no_props(''green_light_duration'' := JNum 45, ''vehicles_waiting'' := JNum 0))"

text \<open>Reading an effect trace: the reasons of the broadcast calls, the PATCH requests, and
  the number of writes attempted on one connection.\<close>

fun broadcast_calls :: "effect list \<Rightarrow> reason list" where
  "broadcast_calls [] = []"
| "broadcast_calls (BroadcastCall r # es) = r # broadcast_calls es"
| "broadcast_calls (e # es) = broadcast_calls es"

fun patches :: "effect list \<Rightarrow> (string \<times> bool) list" where
  "patches [] = []"
| "patches (FirebasePatch f b # es) = (f, b) # patches es"
| "patches (e # es) = patches es"

fun attempts :: "string \<Rightarrow> effect list \<Rightarrow> nat" where
  "attempts c [] = 0"
| "attempts c (SseWrite d p # es) = (if c = d then 1 else 0) + attempts c es"
| "attempts c (SseWriteFailed d # es) = (if c = d then 1 else 0) + attempts c es"
| "attempts c (e # es) = attempts c es"

section \<open>Frame and trace lemmas\<close>

lemma forEach_client_frame:
  "trafficLights (after (forEach_client p fails cs r)) = trafficLights (after r) \<and>
   trafficFlow (after (forEach_client p fails cs r)) = trafficFlow (after r) \<and>
   vehicleData (after (forEach_client p fails cs r)) = vehicleData (after r) \<and>
   timers (after (forEach_client p fails cs r)) = timers (after r) \<and>
   firebaseIntegrationEnabled (after (forEach_client p fails cs r))
     = firebaseIntegrationEnabled (after r) \<and>
   mirror1 (after (forEach_client p fails cs r)) = mirror1 (after r) \<and>
   mirror2 (after (forEach_client p fails cs r)) = mirror2 (after r)"
  by (induction cs arbitrary: r) (simp_all add: send_to_def)

lemma broadcast_frame:
  "trafficLights (after (broadcastStateUpdate r now fails s)) = trafficLights s"
  "trafficFlow (after (broadcastStateUpdate r now fails s)) = trafficFlow s"
  "vehicleData (after (broadcastStateUpdate r now fails s)) = vehicleData s"
  "timers (after (broadcastStateUpdate r now fails s)) = timers s"
  "firebaseIntegrationEnabled (after (broadcastStateUpdate r now fails s))
     = firebaseIntegrationEnabled s"
  "mirror1 (after (broadcastStateUpdate r now fails s)) = mirror1 s"
  "mirror2 (after (broadcastStateUpdate r now fails s)) = mirror2 s"
  by (simp_all add: broadcastStateUpdate_def forEach_client_frame)

lemma forEach_client_emitted:
  "emitted (forEach_client p fails cs r)
     = emitted r @ map (\<lambda>c. if fails c then SseWriteFailed c else SseWrite c p) cs"
  by (induction cs arbitrary: r) (simp_all add: send_to_def)

lemma forEach_client_clients:
  "sseClients (after (forEach_client p fails cs r))
     = filter (\<lambda>c. \<not> (fails c \<and> c \<in> set cs)) (sseClients (after r))"
proof (induction cs arbitrary: r)
  case Nil
  then show ?case by simp
next
  case (Cons c cs)
  show ?case
    by (simp add: Cons.IH send_to_def removeAll_filter_not_eq) (auto intro: filter_cong)
qed

lemma broadcast_emitted:
  "emitted (broadcastStateUpdate r now fails s)
     = BroadcastCall r #
       map (\<lambda>c. if fails c then SseWriteFailed c else SseWrite c (createSSEPayload r now s))
         (sseClients s)"
  by (simp add: broadcastStateUpdate_def forEach_client_emitted)

lemma broadcast_clients:
  "sseClients (after (broadcastStateUpdate r now fails s))
     = filter (\<lambda>c. \<not> fails c) (sseClients s)"
  by (auto simp add: broadcastStateUpdate_def forEach_client_clients intro: filter_cong)

lemma broadcast_calls_writes:
  "broadcast_calls (map (\<lambda>c. if fails c then SseWriteFailed c else SseWrite c p) cs) = []"
  by (induction cs) simp_all

lemma patches_writes:
  "patches (map (\<lambda>c. if fails c then SseWriteFailed c else SseWrite c p) cs) = []"
  by (induction cs) simp_all

lemma broadcast_calls_append: "broadcast_calls (xs @ ys) = broadcast_calls xs @ broadcast_calls ys"
  by (induction xs rule: broadcast_calls.induct) simp_all

lemma patches_append: "patches (xs @ ys) = patches xs @ patches ys"
  by (induction xs rule: patches.induct) simp_all

lemma broadcast_calls_broadcast:
  "broadcast_calls (emitted (broadcastStateUpdate r now fails s)) = [r]"
  by (simp add: broadcast_emitted broadcast_calls_writes)

lemma patches_broadcast: "patches (emitted (broadcastStateUpdate r now fails s)) = []"
  by (simp add: broadcast_emitted patches_writes)

lemma get_light_broadcast:
  "get_light k (after (broadcastStateUpdate r now fails s)) = get_light k s"
  by (simp add: get_light_def broadcast_frame)

lemma get_light_setTimeout: "get_light k (setTimeout t s) = get_light k s"
  by (simp add: get_light_def setTimeout_def)

lemma get_light_set_state:
  "get_light k (set_state j p s) = (if k = j then (get_light k s)\<lparr>state := p\<rparr> else get_light k s)"
  by (cases k; cases j) (simp_all add: set_state_def get_light_def)

lemma get_light_set_lastUpdated:
  "get_light k (set_lastUpdated j now s) =
     (if k = j then (get_light k s)\<lparr>lastUpdated := iso now\<rparr> else get_light k s)"
  by (cases k; cases j) (simp_all add: set_lastUpdated_def get_light_def)

lemma after_respond:
  "after (respond r) = after r"
  "emitted (respond r) = emitted r"
  "r_lights (reply (respond r)) = trafficLights (after r)"
  "r_trafficFlow (reply (respond r)) = trafficFlow (after r)"
  by (simp_all add: respond_def)

lemma after_emit_first:
  "after (emit_first es r) = after r"
  "emitted (emit_first es r) = es @ emitted r"
  by (simp_all add: emit_first_def)

lemma other_neq: "otherLightId k \<noteq> k" "k \<noteq> otherLightId k"
  by (cases k; simp add: otherLightId_def)+

lemma lookup_key_string: "lookup_light (key_string k) = Some k"
  by (cases k) simp_all

lemma timers_frame:
  "timers (set_state k p s) = timers s"
  "timers (set_lastUpdated k now s) = timers s"
  "timers (setTimeout t s) = timers s @ [t]"
  by (cases k; simp add: set_state_def set_lastUpdated_def setTimeout_def)+

lemmas light_simps = get_light_broadcast get_light_setTimeout get_light_set_state
  get_light_set_lastUpdated after_respond after_emit_first other_neq

lemmas handler_defs = control_def control_light_def set_state_def set_lastUpdated_def
  get_light_def setTimeout_def respond_def broadcastStateUpdate_def createSSEPayload_def
  send_to_def otherLightId_def emit_first_def updateFirebaseGateState_def

lemma enabled_whatever_the_environment:
  "project_default \<noteq> [] \<Longrightarrow> key_default \<noteq> [] \<Longrightarrow>
   integration_enabled (env_or project_env project_default) (env_or key_env key_default)"
  by (simp add: integration_enabled_def env_or_def split: option.splits)

lemma route_control:
  "control (key_string i) a now fails s = Inr (control_light i a now fails s)"
  by (simp add: control_def lookup_key_string del: lookup_light.simps)

lemma reply_lights: "light_of i (trafficLights s) = get_light i s"
  by (simp add: get_light_def)

lemma broadcast_delivers:
  "c \<in> set (sseClients s) \<Longrightarrow> \<not> fails c \<Longrightarrow>
   SseWrite c (createSSEPayload r now s) \<in> set (emitted (broadcastStateUpdate r now fails s))"
  by (auto simp add: broadcast_emitted)

lemma frame_lights:
  "sseClients (set_state k p s) = sseClients s"
  "sseClients (set_lastUpdated k now s) = sseClients s"
  "sseClients (setTimeout t s) = sseClients s"
  "trafficFlow (set_state k p s) = trafficFlow s"
  "trafficFlow (set_lastUpdated k now s) = trafficFlow s"
  "trafficFlow (setTimeout t s) = trafficFlow s"
  "vehicleData (set_state k p s) = vehicleData s"
  "vehicleData (set_lastUpdated k now s) = vehicleData s"
  "vehicleData (setTimeout t s) = vehicleData s"
  "firebaseIntegrationEnabled (set_state k p s) = firebaseIntegrationEnabled s"
  "firebaseIntegrationEnabled (set_lastUpdated k now s) = firebaseIntegrationEnabled s"
  by (cases k; simp add: set_state_def set_lastUpdated_def setTimeout_def)+

lemma frame_flow:
  "get_light k (s\<lparr>trafficFlow := f\<rparr>) = get_light k s"
  "timers (s\<lparr>trafficFlow := f\<rparr>) = timers s"
  "sseClients (s\<lparr>trafficFlow := f\<rparr>) = sseClients s"
  by (simp_all add: get_light_def)

lemma snapshot_of_result:
  "createSSEPayload r now (after (broadcastStateUpdate r now fails s)) = createSSEPayload r now s"
  by (simp add: createSSEPayload_def broadcast_frame)

lemma broadcast_delivers_result:
  "c \<in> set (sseClients s) \<Longrightarrow> \<not> fails c \<Longrightarrow>
   SseWrite c (createSSEPayload r now (after (broadcastStateUpdate r now fails s)))
     \<in> set (emitted (broadcastStateUpdate r now fails s))"
  by (simp add: snapshot_of_result broadcast_delivers)

lemma traffic_flow_mode_only:
  "truthy m \<Longrightarrow> \<not> truthy d \<Longrightarrow>
   mode (trafficFlow (after (traffic_flow m d now fails s))) = m \<and>
   emitted (traffic_flow m d now fails s) = []"
  by (simp add: traffic_flow_def respond_def)

lemma attempts_none:
  "c \<notin> set cs \<Longrightarrow>
   attempts c (map (\<lambda>c. if fails c then SseWriteFailed c else SseWrite c p) cs) = 0"
  by (induction cs) auto

lemma attempts_once:
  "distinct cs \<Longrightarrow> c \<in> set cs \<Longrightarrow>
   attempts c (map (\<lambda>c. if fails c then SseWriteFailed c else SseWrite c p) cs) = 1"
  by (induction cs) (auto simp add: attempts_none)

lemma frame_mirror:
  "get_light k (set_mirror j b s) = get_light k s"
  "timers (set_mirror j b s) = timers s"
  "sseClients (set_mirror j b s) = sseClients s"
  by (cases j; simp add: get_light_def)+

lemma apply_entries:
  "fold (apply_entry now) [(''light1'', g1), (''light2'', g2)] (s, False) =
     (let s1 = set_mirror Light1 g1 s;
          c1 = (state (get_light Light1 s) \<noteq> booleanToLightState g1);
          s2 = (if c1 then set_lastUpdated Light1 now (set_state Light1 (booleanToLightState g1) s1)
                else s1);
          s3 = set_mirror Light2 g2 s2;
          c2 = (state (get_light Light2 s) \<noteq> booleanToLightState g2);
          s4 = (if c2 then set_lastUpdated Light2 now (set_state Light2 (booleanToLightState g2) s3)
                else s3)
      in (s4, c1 \<or> c2))"
  by (simp add: Let_def frame_mirror light_simps del: booleanToLightState.simps set_mirror.simps)

lemma sync_is_apply:
  "firebaseIntegrationEnabled s \<Longrightarrow>
   syncGatesFromFirebase origin (Some (g1, g2)) now fails s
     = applyFirebaseGateStates (Some [(''light1'', g1), (''light2'', g2)]) origin now fails s"
  by (simp add: syncGatesFromFirebase_def)

lemma apply_two:
  "applyFirebaseGateStates (Some [(''light1'', g1), (''light2'', g2)]) origin now fails s =
     (let done2 = fold (apply_entry now) [(''light1'', g1), (''light2'', g2)] (s, False)
      in if snd done2
         then broadcastStateUpdate (Tag (''firebase:'' @ origin)) now fails (fst done2)
         else \<lparr>after = fst done2, emitted = []\<rparr>)"
  by (simp add: applyFirebaseGateStates_def Let_def del: fold.simps apply_entry.simps)

section \<open>Light control: the immediate step\<close>

text \<open>
  C1, as stated: the immediate step of a \<open>green\<close> command (phase to yellow, new
  \<open>lastUpdated\<close>) is taken only when the light is not green; on a green light no immediate
  phase write occurs. The handler has no such test. On the started server with its first
  light green, a \<open>green\<close> command for \<open>light1\<close> writes yellow at once and stamps the light
  with the time of the command, in the handler of either version of the server.
\<close>

theorem C1_counterexample:
  "state (get_light Light1 green1) = Green \<and>
   control ''light1'' (JStr ''green'') later all_writes_succeed green1
     = Inr (control_light Light1 (JStr ''green'') later all_writes_succeed green1) \<and>
   state (get_light Light1
            (after (control_light Light1 (JStr ''green'') later all_writes_succeed green1)))
     = Yellow \<and>
   lastUpdated (get_light Light1 green1) = iso boot \<and>
   lastUpdated (get_light Light1
            (after (control_light Light1 (JStr ''green'') later all_writes_succeed green1)))
     = iso later \<and>
   iso later \<noteq> iso boot \<and>
   Server_control ''light1'' (JStr ''green'') later green1
     = Inr (Server_control_light Light1 (JStr ''green'') later green1) \<and>
   state (get_light Light1 (after (Server_control_light Light1 (JStr ''green'') later green1)))
     = Yellow"
  by (simp add: green1_def started_def initial_state_def boot_def later_def
      all_writes_succeed_def Let_def handler_defs Server_control_def Server_control_light_def)

text \<open>
  C1, amended: for every \<open>green\<close> command on an existing light the immediate step is taken
  whatever the current phase of the light, green included: when the handler returns, the
  light is yellow and its \<open>lastUpdated\<close> is the time of the command (in both versions
  of the server).
\<close>

theorem C1_immediate_yellow_unconditional:
  "control (key_string i) (JStr ''green'') now fails s
     = Inr (control_light i (JStr ''green'') now fails s) \<and>
   state (get_light i (after (control_light i (JStr ''green'') now fails s))) = Yellow \<and>
   lastUpdated (get_light i (after (control_light i (JStr ''green'') now fails s))) = iso now \<and>
   Server_control (key_string i) (JStr ''green'') now s
     = Inr (Server_control_light i (JStr ''green'') now s) \<and>
   state (get_light i (after (Server_control_light i (JStr ''green'') now s))) = Yellow \<and>
   lastUpdated (get_light i (after (Server_control_light i (JStr ''green'') now s))) = iso now"
  by (simp add: control_def control_light_def Server_control_def Server_control_light_def Let_def
      light_simps lookup_key_string del: lookup_light.simps)

section \<open>Light control: a red command on a red light\<close>

text \<open>
  C2, as stated: on a light that is already red a \<open>red\<close> command leaves red the only phase
  that can be observed from the command to the end of its delayed completion. The \<open>red\<close>
  branch writes yellow first, whatever the phase: on the started server, where \<open>light1\<close> is
  red, the response to the command and the state it leaves both show \<open>light1\<close> yellow.
\<close>

theorem C2_counterexample:
  "state (get_light Light1 started) = Red \<and>
   control ''light1'' (JStr ''red'') later all_writes_succeed started
     = Inr (control_light Light1 (JStr ''red'') later all_writes_succeed started) \<and>
   state (light_of Light1
            (r_lights (reply (control_light Light1 (JStr ''red'') later all_writes_succeed started))))
     = Yellow \<and>
   state (get_light Light1
            (after (control_light Light1 (JStr ''red'') later all_writes_succeed started)))
     = Yellow"
  by (simp add: started_def initial_state_def boot_def later_def all_writes_succeed_def Let_def
      handler_defs)

text \<open>
  C2, amended: on a light that is already red a \<open>red\<close> command sets the phase to yellow at
  once (the state and the response show yellow) and schedules one completion; whenever that
  completion runs it sets the phase to red, so with no other event in between the light is
  red again once the completion has run.
\<close>

theorem C2_red_on_red_passes_through_yellow:
  "state (get_light i s) = Red \<longrightarrow>
   control (key_string i) (JStr ''red'') now fails s
     = Inr (control_light i (JStr ''red'') now fails s) \<and>
   state (get_light i (after (control_light i (JStr ''red'') now fails s))) = Yellow \<and>
   state (light_of i (r_lights (reply (control_light i (JStr ''red'') now fails s)))) = Yellow \<and>
   timers (after (control_light i (JStr ''red'') now fails s)) = timers s @ [RedDone i] \<and>
   state (get_light i (after (run_task (RedDone i) now' fails' s'))) = Red \<and>
   (timers s = [] \<longrightarrow>
    state (get_light i
             (after (timer_fires now' fails' (after (control_light i (JStr ''red'') now fails s)))))
      = Red)"
proof -
  have route: "control (key_string i) (JStr ''red'') now fails s
      = Inr (control_light i (JStr ''red'') now fails s)"
    by (simp add: control_def lookup_key_string del: lookup_light.simps)
  have yellow: "state (get_light i (after (control_light i (JStr ''red'') now fails s))) = Yellow"
    by (simp add: control_light_def Let_def light_simps)
  have seen: "state (light_of i (r_lights (reply (control_light i (JStr ''red'') now fails s))))
      = Yellow"
    using yellow by (simp add: control_light_def Let_def after_respond get_light_def)
  have sched: "timers (after (control_light i (JStr ''red'') now fails s)) = timers s @ [RedDone i]"
    by (simp add: control_light_def Let_def after_respond broadcast_frame timers_frame)
  have compl: "state (get_light i (after (run_task (RedDone i) now' fails' s'))) = Red" for s'
    by (simp add: Let_def light_simps)
  have fires: "state (get_light i
       (after (timer_fires now' fails' (after (control_light i (JStr ''red'') now fails s))))) = Red"
    if "timers s = []"
    using that sched compl by (simp add: timer_fires_def del: run_task.simps)
  from route yellow seen sched compl fires show ?thesis by blast
qed

text \<open>The amended C2 on the started server, whose first light is red and which has no timeout
  pending.\<close>

theorem C2_witness:
  "state (get_light Light1 started) = Red \<and>
   state (get_light Light1
            (after (control_light Light1 (JStr ''red'') later all_writes_succeed started)))
     = Yellow \<and>
   timers started = [] \<and>
   state (get_light Light1
            (after (timer_fires later all_writes_succeed
                      (after (control_light Light1 (JStr ''red'') later all_writes_succeed started)))))
     = Red"
proof -
  have red: "state (get_light Light1 started) = Red"
    by (simp add: started_def initial_state_def get_light_def)
  have idle: "timers started = []"
    by (simp add: started_def initial_state_def)
  from red idle
    C2_red_on_red_passes_through_yellow [of Light1 started later all_writes_succeed later
      all_writes_succeed started]
  show ?thesis by simp
qed

section \<open>Light control: the green completion\<close>

text \<open>
  C3: a \<open>green\<close> command, and a \<open>toggle\<close> on a red light, each schedule their own green
  completion; immediately after either completion has run, from whatever state it finds, the
  targeted light is green and the paired light is red.
\<close>

theorem C3_green_completion_exclusive:
  "timers (after (control_light i (JStr ''green'') now fails s)) = timers s @ [GreenDone i] \<and>
   (state (get_light i s) = Red \<longrightarrow>
    timers (after (control_light i (JStr ''toggle'') now fails s)) = timers s @ [ToggleGreenDone i]) \<and>
   state (get_light i (after (run_task (GreenDone i) now' fails' s'))) = Green \<and>
   state (get_light (otherLightId i) (after (run_task (GreenDone i) now' fails' s'))) = Red \<and>
   state (get_light i (after (run_task (ToggleGreenDone i) now' fails' s'))) = Green \<and>
   state (get_light (otherLightId i) (after (run_task (ToggleGreenDone i) now' fails' s'))) = Red"
proof -
  have g: "timers (after (control_light i (JStr ''green'') now fails s)) = timers s @ [GreenDone i]"
    by (simp add: control_light_def Let_def after_respond broadcast_frame timers_frame)
  have t: "timers (after (control_light i (JStr ''toggle'') now fails s))
      = timers s @ [ToggleGreenDone i]" if "state (get_light i s) = Red"
    using that by (simp add: control_light_def Let_def after_respond broadcast_frame timers_frame)
  have c1: "state (get_light i (after (run_task (GreenDone i) now' fails' s'))) = Green"
    by (simp add: Let_def light_simps)
  have c2: "state (get_light (otherLightId i) (after (run_task (GreenDone i) now' fails' s'))) = Red"
    by (simp add: Let_def light_simps)
  have c3: "state (get_light i (after (run_task (ToggleGreenDone i) now' fails' s'))) = Green"
    by (simp add: Let_def light_simps)
  have c4: "state (get_light (otherLightId i) (after (run_task (ToggleGreenDone i) now' fails' s')))
      = Red"
    by (simp add: Let_def light_simps)
  from g t c1 c2 c3 c4 show ?thesis by blast
qed

text \<open>C3 on the server whose first light is green: a toggle of the red \<open>light2\<close> schedules
  its green completion, and the completion, run while \<open>light1\<close> is green, leaves \<open>light2\<close>
  green and \<open>light1\<close> red.\<close>

theorem C3_witness:
  "state (get_light Light2 green1) = Red \<and>
   state (get_light (otherLightId Light2) green1) = Green \<and>
   timers (after (control_light Light2 (JStr ''toggle'') later all_writes_succeed green1))
     = timers green1 @ [ToggleGreenDone Light2] \<and>
   state (get_light Light2
      (after (run_task (ToggleGreenDone Light2) later all_writes_succeed green1))) = Green \<and>
   state (get_light (otherLightId Light2)
      (after (run_task (ToggleGreenDone Light2) later all_writes_succeed green1))) = Red"
proof -
  have red: "state (get_light Light2 green1) = Red"
    by (simp add: green1_def started_def initial_state_def get_light_def set_state_def)
  have green: "state (get_light (otherLightId Light2) green1) = Green"
    by (simp add: green1_def started_def initial_state_def get_light_def set_state_def
        otherLightId_def)
  from red green
    C3_green_completion_exclusive [of Light2 later all_writes_succeed green1 later
      all_writes_succeed green1]
  show ?thesis by simp
qed

section \<open>Flow direction\<close>

text \<open>
  C4: for every flow command that carries a direction (a value that the handler's test
  \<open>if (direction)\<close> accepts, as every direction name is): \<open>currentDirection\<close> and
  \<open>lastChanged\<close> are updated; both lights are yellow when the handler returns, one broadcast
  is made and every subscriber whose write succeeds is sent the snapshot of that state; one
  completion is scheduled, and when it runs both lights are green at once, a PATCH of
  \<open>true\<close> is issued for the gate field of each light, and one more broadcast is made, whose
  snapshot of the state with both lights green goes to every subscriber whose write succeeds.
\<close>

theorem C4_flow_direction_both_green:
  "truthy (JStr ''inbound'') \<and> truthy (JStr ''outbound'') \<and>
   (truthy d \<longrightarrow>
   currentDirection (trafficFlow (after (traffic_flow m d now fails s))) = d \<and>
   lastChanged (trafficFlow (after (traffic_flow m d now fails s))) = iso now \<and>
   state (get_light Light1 (after (traffic_flow m d now fails s))) = Yellow \<and>
   state (get_light Light2 (after (traffic_flow m d now fails s))) = Yellow \<and>
   broadcast_calls (emitted (traffic_flow m d now fails s)) = [Tag ''traffic-flow:yellow-phase''] \<and>
   (\<forall>c \<in> set (sseClients s). \<not> fails c \<longrightarrow>
      SseWrite c (createSSEPayload (Tag ''traffic-flow:yellow-phase'') now
                    (after (traffic_flow m d now fails s)))
        \<in> set (emitted (traffic_flow m d now fails s))) \<and>
   timers (after (traffic_flow m d now fails s)) = timers s @ [FlowDone d] \<and>
   state (get_light Light1 (after (run_task (FlowDone d) now' fails' s'))) = Green \<and>
   state (get_light Light2 (after (run_task (FlowDone d) now' fails' s'))) = Green \<and>
   (firebaseIntegrationEnabled s' \<longrightarrow>
    patches (emitted (run_task (FlowDone d) now' fails' s'))
      = [(''gate01'', True), (''gate02'', True)]) \<and>
   broadcast_calls (emitted (run_task (FlowDone d) now' fails' s')) = [FlowTag d] \<and>
   (\<forall>c \<in> set (sseClients s'). \<not> fails' c \<longrightarrow>
      SseWrite c (createSSEPayload (FlowTag d) now' (after (run_task (FlowDone d) now' fails' s')))
        \<in> set (emitted (run_task (FlowDone d) now' fails' s'))))"
proof -
  have names: "truthy (JStr ''inbound'') \<and> truthy (JStr ''outbound'')"
    by simp
  have cmd: "currentDirection (trafficFlow (after (traffic_flow m d now fails s))) = d \<and>
      lastChanged (trafficFlow (after (traffic_flow m d now fails s))) = iso now \<and>
      state (get_light Light1 (after (traffic_flow m d now fails s))) = Yellow \<and>
      state (get_light Light2 (after (traffic_flow m d now fails s))) = Yellow \<and>
      broadcast_calls (emitted (traffic_flow m d now fails s)) = [Tag ''traffic-flow:yellow-phase''] \<and>
      timers (after (traffic_flow m d now fails s)) = timers s @ [FlowDone d]"
    if "truthy d"
    using that
    by (simp add: traffic_flow_def Let_def light_simps broadcast_frame frame_lights timers_frame
        frame_flow broadcast_calls_broadcast)
  have sent: "SseWrite c (createSSEPayload (Tag ''traffic-flow:yellow-phase'') now
                    (after (traffic_flow m d now fails s)))
        \<in> set (emitted (traffic_flow m d now fails s))"
    if "truthy d" "c \<in> set (sseClients s)" "\<not> fails c" for c
    using that
    by (simp add: traffic_flow_def Let_def after_respond broadcast_delivers_result frame_lights
        frame_flow)
  have l1: "state (get_light Light1 (after (run_task (FlowDone d) now' fails' s'))) = Green"
    by (simp add: Let_def light_simps)
  have l2: "state (get_light Light2 (after (run_task (FlowDone d) now' fails' s'))) = Green"
    by (simp add: Let_def light_simps)
  have push: "patches (emitted (run_task (FlowDone d) now' fails' s'))
      = [(''gate01'', True), (''gate02'', True)]" if "firebaseIntegrationEnabled s'"
    using that
    by (simp add: Let_def after_emit_first patches_append patches_broadcast
        updateFirebaseGateState_def frame_lights)
  have again: "broadcast_calls (emitted (run_task (FlowDone d) now' fails' s')) = [FlowTag d]"
    by (simp add: Let_def after_emit_first broadcast_calls_append broadcast_calls_broadcast
        updateFirebaseGateState_def)
  have sent': "SseWrite c (createSSEPayload (FlowTag d) now'
                    (after (run_task (FlowDone d) now' fails' s')))
        \<in> set (emitted (run_task (FlowDone d) now' fails' s'))"
    if "c \<in> set (sseClients s')" "\<not> fails' c" for c
    using that
    by (simp add: Let_def after_emit_first broadcast_delivers_result frame_lights)
  from names cmd sent l1 l2 push again sent' show ?thesis by blast
qed

text \<open>C4 for the direction \<open>outbound\<close> on the server with one subscriber.\<close>

theorem C4_witness:
  "truthy (JStr ''outbound'') \<and> firebaseIntegrationEnabled subscribed \<and>
   ''c1'' \<in> set (sseClients subscribed) \<and> \<not> all_writes_succeed ''c1'' \<and>
   currentDirection (trafficFlow
      (after (traffic_flow JUndefined (JStr ''outbound'') later all_writes_succeed subscribed)))
     = JStr ''outbound'' \<and>
   state (get_light Light1
      (after (traffic_flow JUndefined (JStr ''outbound'') later all_writes_succeed subscribed)))
     = Yellow \<and>
   state (get_light Light2
      (after (traffic_flow JUndefined (JStr ''outbound'') later all_writes_succeed subscribed)))
     = Yellow \<and>
   state (get_light Light1
      (after (run_task (FlowDone (JStr ''outbound'')) later all_writes_succeed subscribed)))
     = Green \<and>
   state (get_light Light2
      (after (run_task (FlowDone (JStr ''outbound'')) later all_writes_succeed subscribed)))
     = Green \<and>
   patches (emitted (run_task (FlowDone (JStr ''outbound'')) later all_writes_succeed subscribed))
     = [(''gate01'', True), (''gate02'', True)] \<and>
   SseWrite ''c1''
      (createSSEPayload (FlowTag (JStr ''outbound'')) later
         (after (run_task (FlowDone (JStr ''outbound'')) later all_writes_succeed subscribed)))
     \<in> set (emitted (run_task (FlowDone (JStr ''outbound'')) later all_writes_succeed subscribed))"
proof -
  have dir: "truthy (JStr ''outbound'')"
    by simp
  have on: "firebaseIntegrationEnabled subscribed"
    by (simp add: subscribed_def started_def initial_state_def boot_def stream_connect_def
      registerSSEClient_def integration_enabled_def Let_def)
  have sub: "''c1'' \<in> set (sseClients subscribed)"
    by (simp add: subscribed_def started_def initial_state_def boot_def stream_connect_def
      registerSSEClient_def integration_enabled_def Let_def)
  have ok: "\<not> all_writes_succeed ''c1''"
    by (simp add: all_writes_succeed_def)
  from dir on sub ok
    C4_flow_direction_both_green [of "JStr ''outbound''" JUndefined later all_writes_succeed
      subscribed later all_writes_succeed subscribed]
  show ?thesis by blast
qed

text \<open>
  C6: every successful mutation of the state store triggers a broadcast, in particular a flow
  command that carries only a mode. The handler calls the broadcast inside its direction
  branch only: on the server with one subscriber the command \<open>{mode: 'manual'}\<close> changes
  \<open>trafficFlow.mode\<close> from \<open>automatic\<close> to \<open>manual\<close> and produces no effect at all, so the
  subscriber is not told; the same command with a direction added is broadcast.
\<close>

theorem C6_mode_only_is_not_broadcast:
  "sseClients subscribed = [''c1''] \<and>
   mode (trafficFlow subscribed) = JStr ''automatic'' \<and>
   mode (trafficFlow
      (after (traffic_flow (JStr ''manual'') JUndefined later all_writes_succeed subscribed)))
     = JStr ''manual'' \<and>
   emitted (traffic_flow (JStr ''manual'') JUndefined later all_writes_succeed subscribed) = [] \<and>
   broadcast_calls
      (emitted (traffic_flow (JStr ''manual'') (JStr ''outbound'') later all_writes_succeed
                  subscribed))
     = [Tag ''traffic-flow:yellow-phase'']"
  by (simp add: subscribed_def started_def initial_state_def boot_def stream_connect_def
      registerSSEClient_def integration_enabled_def Let_def
      traffic_flow_def respond_def broadcast_calls_broadcast)

section \<open>External authority sync\<close>

text \<open>
  C5, as stated: when at least one light changed, the sync triggers one broadcast tagged
  \<open>external-sync\<close>. The tag the code builds is \<open>firebase:\<close> followed by the origin of the
  poll: on the server with one subscriber and both lights red, the poll result
  \<open>{light1: true, light2: false}\<close> gives one broadcast tagged \<open>firebase:interval\<close> from a
  periodic poll and \<open>firebase:initial\<close> from the start-up poll, neither of which is
  \<open>external-sync\<close>.
\<close>

theorem C5_counterexample:
  "firebaseIntegrationEnabled subscribed \<and>
   state (get_light Light1 subscribed) = Red \<and>
   booleanToLightState True = Green \<and>
   broadcast_calls
      (emitted (syncGatesFromFirebase ''interval'' (Some (True, False)) later all_writes_succeed
                  subscribed))
     = [Tag ''firebase:interval''] \<and>
   broadcast_calls
      (emitted (syncGatesFromFirebase ''initial'' (Some (True, False)) later all_writes_succeed
                  subscribed))
     = [Tag ''firebase:initial''] \<and>
   Tag ''firebase:interval'' \<noteq> Tag ''external-sync'' \<and>
   Tag ''firebase:initial'' \<noteq> Tag ''external-sync''"
proof -
  have on: "firebaseIntegrationEnabled subscribed"
    by (simp add: subscribed_def started_def initial_state_def boot_def stream_connect_def
      registerSSEClient_def integration_enabled_def Let_def)
  have red: "state (get_light Light1 subscribed) = Red"
    by (simp add: subscribed_def started_def initial_state_def boot_def stream_connect_def
      registerSSEClient_def integration_enabled_def Let_def get_light_def)
  have calls: "broadcast_calls
      (emitted (syncGatesFromFirebase origin (Some (True, False)) later all_writes_succeed
                  subscribed))
     = [Tag (''firebase:'' @ origin)]" for origin
    using red
    by (simp add: sync_is_apply [OF on] apply_two apply_entries Let_def broadcast_calls_broadcast
        del: fold.simps apply_entry.simps set_mirror.simps)
  from on red calls [of "''interval''"] calls [of "''initial''"] show ?thesis
    by simp
qed

text \<open>
  C5, amended: for every poll result (two booleans) the sync maps \<open>true\<close> to green and
  \<open>false\<close> to red; a light whose mapped phase differs from its stored phase gets the mapped
  phase and a new \<open>lastUpdated\<close> by direct assignment (no timeout is scheduled, no yellow is
  written), and a light whose phase agrees is left as it was; when at least one light changed
  there is exactly one broadcast call, tagged \<open>firebase:\<close> followed by the origin of the poll
  (\<open>initial\<close> for the poll at start-up, \<open>interval\<close> for the periodic ones), whose snapshot
  of the new state goes to every subscriber whose write succeeds, and when no light changed
  there is no effect at all.
\<close>

theorem C5_external_sync:
  "booleanToLightState True = Green \<and> booleanToLightState False = Red \<and>
   (firebaseIntegrationEnabled s \<longrightarrow>
    syncGatesFromFirebase origin (Some (g1, g2)) now fails s
      = applyFirebaseGateStates (Some [(''light1'', g1), (''light2'', g2)]) origin now fails s) \<and>
   get_light Light1
      (after (applyFirebaseGateStates (Some [(''light1'', g1), (''light2'', g2)]) origin now fails s))
     = (if state (get_light Light1 s) \<noteq> booleanToLightState g1
        then (get_light Light1 s)\<lparr>state := booleanToLightState g1, lastUpdated := iso now\<rparr>
        else get_light Light1 s) \<and>
   get_light Light2
      (after (applyFirebaseGateStates (Some [(''light1'', g1), (''light2'', g2)]) origin now fails s))
     = (if state (get_light Light2 s) \<noteq> booleanToLightState g2
        then (get_light Light2 s)\<lparr>state := booleanToLightState g2, lastUpdated := iso now\<rparr>
        else get_light Light2 s) \<and>
   timers (after (applyFirebaseGateStates (Some [(''light1'', g1), (''light2'', g2)]) origin now
                    fails s))
     = timers s \<and>
   broadcast_calls
      (emitted (applyFirebaseGateStates (Some [(''light1'', g1), (''light2'', g2)]) origin now
                  fails s))
     = (if state (get_light Light1 s) \<noteq> booleanToLightState g1
           \<or> state (get_light Light2 s) \<noteq> booleanToLightState g2
        then [Tag (''firebase:'' @ origin)] else []) \<and>
   (state (get_light Light1 s) = booleanToLightState g1
      \<and> state (get_light Light2 s) = booleanToLightState g2 \<longrightarrow>
    emitted (applyFirebaseGateStates (Some [(''light1'', g1), (''light2'', g2)]) origin now fails s)
      = []) \<and>
   (state (get_light Light1 s) \<noteq> booleanToLightState g1
      \<or> state (get_light Light2 s) \<noteq> booleanToLightState g2 \<longrightarrow>
    (\<forall>c \<in> set (sseClients s). \<not> fails c \<longrightarrow>
       SseWrite c
         (createSSEPayload (Tag (''firebase:'' @ origin)) now
            (after (applyFirebaseGateStates (Some [(''light1'', g1), (''light2'', g2)]) origin now
                      fails s)))
         \<in> set (emitted (applyFirebaseGateStates (Some [(''light1'', g1), (''light2'', g2)])
                            origin now fails s))))"
  (is "?m1 \<and> ?m2 \<and> ?sync \<and> ?l1 \<and> ?l2 \<and> ?tm \<and> ?calls \<and> ?quiet \<and> ?sent")
proof -
  have maps: "?m1 \<and> ?m2"
    by simp
  have sync: ?sync
    by (simp add: sync_is_apply)
  have l1: ?l1
    by (simp add: apply_two apply_entries Let_def light_simps frame_mirror
        del: fold.simps apply_entry.simps booleanToLightState.simps set_mirror.simps)
  have l2: ?l2
    by (simp add: apply_two apply_entries Let_def light_simps frame_mirror
        del: fold.simps apply_entry.simps booleanToLightState.simps set_mirror.simps)
  have tm: ?tm
    by (simp add: apply_two apply_entries Let_def broadcast_frame timers_frame frame_mirror
        del: fold.simps apply_entry.simps booleanToLightState.simps set_mirror.simps)
  have calls: ?calls
    by (simp add: apply_two apply_entries Let_def broadcast_calls_broadcast
        del: fold.simps apply_entry.simps booleanToLightState.simps set_mirror.simps)
  have quiet: ?quiet
    by (simp add: apply_two apply_entries Let_def
        del: fold.simps apply_entry.simps booleanToLightState.simps set_mirror.simps)
  have sent: ?sent
    by (auto simp add: apply_two apply_entries Let_def broadcast_delivers_result frame_lights
        frame_mirror
        simp del: fold.simps apply_entry.simps booleanToLightState.simps set_mirror.simps)
  from maps sync l1 l2 tm calls quiet sent show ?thesis by blast
qed

text \<open>The amended C5 for the poll result \<open>{light1: true, light2: false}\<close> on the server with one
  subscriber, both lights red: \<open>light1\<close> becomes green directly, \<open>light2\<close> is untouched, and
  there is one broadcast.\<close>

theorem C5_witness:
  "firebaseIntegrationEnabled subscribed \<and>
   state (get_light Light1 subscribed) = Red \<and> state (get_light Light2 subscribed) = Red \<and>
   ''c1'' \<in> set (sseClients subscribed) \<and> \<not> all_writes_succeed ''c1'' \<and>
   syncGatesFromFirebase ''interval'' (Some (True, False)) later all_writes_succeed subscribed
     = applyFirebaseGateStates (Some [(''light1'', True), (''light2'', False)]) ''interval'' later
         all_writes_succeed subscribed \<and>
   get_light Light1
      (after (applyFirebaseGateStates (Some [(''light1'', True), (''light2'', False)]) ''interval''
                later all_writes_succeed subscribed))
     = (get_light Light1 subscribed)\<lparr>state := Green, lastUpdated := iso later\<rparr> \<and>
   get_light Light2
      (after (applyFirebaseGateStates (Some [(''light1'', True), (''light2'', False)]) ''interval''
                later all_writes_succeed subscribed))
     = get_light Light2 subscribed \<and>
   broadcast_calls
      (emitted (applyFirebaseGateStates (Some [(''light1'', True), (''light2'', False)])
                  ''interval'' later all_writes_succeed subscribed))
     = [Tag ''firebase:interval''] \<and>
   SseWrite ''c1''
      (createSSEPayload (Tag ''firebase:interval'') later
         (after (applyFirebaseGateStates (Some [(''light1'', True), (''light2'', False)])
                   ''interval'' later all_writes_succeed subscribed)))
     \<in> set (emitted (applyFirebaseGateStates (Some [(''light1'', True), (''light2'', False)])
                        ''interval'' later all_writes_succeed subscribed))"
proof -
  have on: "firebaseIntegrationEnabled subscribed"
    by (simp add: subscribed_def started_def initial_state_def boot_def stream_connect_def
      registerSSEClient_def integration_enabled_def Let_def)
  have red: "state (get_light Light1 subscribed) = Red" "state (get_light Light2 subscribed) = Red"
    by (simp_all add: subscribed_def started_def initial_state_def boot_def stream_connect_def
      registerSSEClient_def integration_enabled_def Let_def get_light_def)
  have sub: "''c1'' \<in> set (sseClients subscribed)"
    by (simp add: subscribed_def started_def initial_state_def boot_def stream_connect_def
      registerSSEClient_def integration_enabled_def Let_def)
  have ok: "\<not> all_writes_succeed ''c1''"
    by (simp add: all_writes_succeed_def)
  have differs: "state (get_light Light1 subscribed) \<noteq> booleanToLightState True
      \<or> state (get_light Light2 subscribed) \<noteq> booleanToLightState False"
    by (simp add: red)
  note sync = C5_external_sync [of subscribed "''interval''" True False later all_writes_succeed]
  note route = sync [THEN conjunct2, THEN conjunct2, THEN conjunct1, THEN mp, OF on]
  note first = sync [THEN conjunct2, THEN conjunct2, THEN conjunct2, THEN conjunct1]
  note second = sync [THEN conjunct2, THEN conjunct2, THEN conjunct2, THEN conjunct2,
      THEN conjunct1]
  note calls = sync [THEN conjunct2, THEN conjunct2, THEN conjunct2, THEN conjunct2,
      THEN conjunct2, THEN conjunct2, THEN conjunct1]
  note sent = sync [THEN conjunct2, THEN conjunct2, THEN conjunct2, THEN conjunct2,
      THEN conjunct2, THEN conjunct2, THEN conjunct2, THEN conjunct2, THEN mp, OF differs,
      THEN bspec, OF sub, THEN mp, OF ok]
  have first': "get_light Light1
      (after (applyFirebaseGateStates (Some [(''light1'', True), (''light2'', False)]) ''interval''
                later all_writes_succeed subscribed))
     = (get_light Light1 subscribed)\<lparr>state := Green, lastUpdated := iso later\<rparr>"
    using first red by simp
  have second': "get_light Light2
      (after (applyFirebaseGateStates (Some [(''light1'', True), (''light2'', False)]) ''interval''
                later all_writes_succeed subscribed))
     = get_light Light2 subscribed"
    using second red by simp
  have calls': "broadcast_calls
      (emitted (applyFirebaseGateStates (Some [(''light1'', True), (''light2'', False)])
                  ''interval'' later all_writes_succeed subscribed))
     = [Tag ''firebase:interval'']"
    using calls red by simp
  have sent': "SseWrite ''c1''
      (createSSEPayload (Tag ''firebase:interval'') later
         (after (applyFirebaseGateStates (Some [(''light1'', True), (''light2'', False)])
                   ''interval'' later all_writes_succeed subscribed)))
     \<in> set (emitted (applyFirebaseGateStates (Some [(''light1'', True), (''light2'', False)])
                        ''interval'' later all_writes_succeed subscribed))"
    using sent by simp
  show ?thesis
    by (intro conjI) (rule on red sub ok route first' second' calls' sent')+
qed

section \<open>Broadcast to several subscribers\<close>

text \<open>
  C9: in one broadcast call every registered connection gets one write of the same snapshot,
  in registration order. A connection whose write fails is removed from the registry, and only
  such connections are; every other registered connection stays registered and is sent the
  snapshot; no connection is written to a second time (the registry is a set, so its members
  are distinct).
\<close>

theorem C9_failed_send_is_isolated:
  "sseClients (after (broadcastStateUpdate r now fails s))
     = filter (\<lambda>c. \<not> fails c) (sseClients s) \<and>
   emitted (broadcastStateUpdate r now fails s)
     = BroadcastCall r #
       map (\<lambda>c. if fails c then SseWriteFailed c else SseWrite c (createSSEPayload r now s))
         (sseClients s) \<and>
   (\<forall>c \<in> set (sseClients s). \<not> fails c \<longrightarrow>
      c \<in> set (sseClients (after (broadcastStateUpdate r now fails s))) \<and>
      SseWrite c (createSSEPayload r now s) \<in> set (emitted (broadcastStateUpdate r now fails s))) \<and>
   (\<forall>c \<in> set (sseClients s). fails c \<longrightarrow>
      c \<notin> set (sseClients (after (broadcastStateUpdate r now fails s))) \<and>
      SseWriteFailed c \<in> set (emitted (broadcastStateUpdate r now fails s))) \<and>
   (distinct (sseClients s) \<longrightarrow>
      (\<forall>c \<in> set (sseClients s). attempts c (emitted (broadcastStateUpdate r now fails s)) = 1))"
proof -
  have reg: "sseClients (after (broadcastStateUpdate r now fails s))
      = filter (\<lambda>c. \<not> fails c) (sseClients s)"
    by (rule broadcast_clients)
  have tr: "emitted (broadcastStateUpdate r now fails s)
      = BroadcastCall r #
        map (\<lambda>c. if fails c then SseWriteFailed c else SseWrite c (createSSEPayload r now s))
          (sseClients s)"
    by (rule broadcast_emitted)
  have good: "c \<in> set (sseClients (after (broadcastStateUpdate r now fails s))) \<and>
      SseWrite c (createSSEPayload r now s) \<in> set (emitted (broadcastStateUpdate r now fails s))"
    if "c \<in> set (sseClients s)" "\<not> fails c" for c
    using that by (simp add: reg broadcast_delivers)
  have bad: "c \<notin> set (sseClients (after (broadcastStateUpdate r now fails s))) \<and>
      SseWriteFailed c \<in> set (emitted (broadcastStateUpdate r now fails s))"
    if "c \<in> set (sseClients s)" "fails c" for c
    using that by (auto simp add: reg tr)
  have once: "attempts c (emitted (broadcastStateUpdate r now fails s)) = 1"
    if "distinct (sseClients s)" "c \<in> set (sseClients s)" for c
    using that by (simp add: tr attempts_once)
  from reg tr good bad once show ?thesis by blast
qed

text \<open>C9 with three subscribers of which the second fails.\<close>

theorem C9_witness:
  "sseClients three_clients = [''c1'', ''c2'', ''c3''] \<and> distinct (sseClients three_clients) \<and>
   c2_fails ''c2'' \<and> \<not> c2_fails ''c1'' \<and> \<not> c2_fails ''c3'' \<and>
   sseClients (after (broadcastStateUpdate (Tag ''update'') later c2_fails three_clients))
     = [''c1'', ''c3''] \<and>
   SseWrite ''c1'' (createSSEPayload (Tag ''update'') later three_clients)
     \<in> set (emitted (broadcastStateUpdate (Tag ''update'') later c2_fails three_clients)) \<and>
   SseWrite ''c3'' (createSSEPayload (Tag ''update'') later three_clients)
     \<in> set (emitted (broadcastStateUpdate (Tag ''update'') later c2_fails three_clients)) \<and>
   attempts ''c2'' (emitted (broadcastStateUpdate (Tag ''update'') later c2_fails three_clients)) = 1"
proof -
  have regs: "sseClients three_clients = [''c1'', ''c2'', ''c3'']"
    by (simp add: three_clients_def subscribed_def started_def initial_state_def boot_def stream_connect_def
      registerSSEClient_def integration_enabled_def Let_def)
  have conn: "c2_fails ''c2''" "\<not> c2_fails ''c1''" "\<not> c2_fails ''c3''"
    by (simp_all add: c2_fails_def)
  have left: "filter (\<lambda>c. \<not> c2_fails c) [''c1'', ''c2'', ''c3''] = [''c1'', ''c3'']"
    by (simp add: c2_fails_def)
  from regs conn left
    C9_failed_send_is_isolated [of "Tag ''update''" later c2_fails three_clients]
  show ?thesis by simp
qed

section \<open>Telemetry merge\<close>

text \<open>
  C7: for every message on the \<open>traffic_light\<close> topic and on the \<open>speeds\<close> topic, each
  field the topic covers is replaced by the incoming value exactly when that value is
  present and truthy; otherwise (the key is absent, or its value is zero or another falsy
  value) the stored value stays. A message that does not parse leaves the record as it is.
\<close>

theorem C7_truthy_replace:
  "(\<forall>k \<in> set [''green_light_duration'', ''vehicles_waiting'', ''priority_vehicles''].
      vehicleData (after (on_message (MQTT_TOPIC_BASE @ ''/traffic_light'') (Some data) now fails s)) k
        = (if truthy (field data k) then field data k else vehicleData s k)) \<and>
   (\<forall>k \<in> set [''bspeed'', ''cspeed'', ''mspeed'', ''tspeed''].
      vehicleData (after (on_message (MQTT_TOPIC_BASE @ ''/speeds'') (Some data) now fails s)) k
        = (if truthy (field data k) then field data k else vehicleData s k)) \<and>
   \<not> truthy (JNum 0) \<and> \<not> truthy JUndefined \<and>
   vehicleData (after (on_message (MQTT_TOPIC_BASE @ ''/traffic_light'') None now fails s))
     = vehicleData s \<and>
   vehicleData (after (on_message (MQTT_TOPIC_BASE @ ''/speeds'') None now fails s))
     = vehicleData s"
proof -
  have tl: "vehicleData (after (on_message (MQTT_TOPIC_BASE @ ''/traffic_light'') (Some data) now fails s)) k
        = (if truthy (field data k) then field data k else vehicleData s k)"
    if "k \<in> set [''green_light_duration'', ''vehicles_waiting'', ''priority_vehicles'']" for k
  proof (cases "data = JNull \<or> data = JUndefined")
    case True
    then show ?thesis
      by (auto simp add: on_message_def MQTT_TOPIC_BASE_def field_def)
  next
    case False
    with that show ?thesis
      by (auto simp add: on_message_def MQTT_TOPIC_BASE_def broadcast_frame js_or_def)
  qed
  have sp: "vehicleData (after (on_message (MQTT_TOPIC_BASE @ ''/speeds'') (Some data) now fails s)) k
        = (if truthy (field data k) then field data k else vehicleData s k)"
    if "k \<in> set [''bspeed'', ''cspeed'', ''mspeed'', ''tspeed'']" for k
  proof (cases "data = JNull \<or> data = JUndefined")
    case True
    then show ?thesis
      by (auto simp add: on_message_def MQTT_TOPIC_BASE_def field_def)
  next
    case False
    with that show ?thesis
      by (auto simp add: on_message_def MQTT_TOPIC_BASE_def broadcast_frame js_or_def)
  qed
  have dropped: "vehicleData (after (on_message t None now fails s)) = vehicleData s" for t
    by (simp add: on_message_def)
  from tl sp dropped show ?thesis by simp
qed

text \<open>C7 on the started server: a duration of 45 replaces the stored 20, a zero count of
  waiting vehicles and the missing \<open>priority_vehicles\<close> leave the stored values.\<close>

theorem C7_witness:
  "vehicleData started ''green_light_duration'' = JNum 20 \<and>
   vehicleData started ''priority_vehicles'' = JNum 0 \<and>
   field light_message ''green_light_duration'' = JNum 45 \<and>
   field light_message ''vehicles_waiting'' = JNum 0 \<and>
   field light_message ''priority_vehicles'' = JUndefined \<and>
   vehicleData
      (after (on_message (MQTT_TOPIC_BASE @ ''/traffic_light'') (Some light_message) later
                all_writes_succeed started))
      ''green_light_duration'' = JNum 45 \<and>
   vehicleData
      (after (on_message (MQTT_TOPIC_BASE @ ''/traffic_light'') (Some light_message) later
                all_writes_succeed started))
      ''vehicles_waiting'' = vehicleData started ''vehicles_waiting'' \<and>
   vehicleData
      (after (on_message (MQTT_TOPIC_BASE @ ''/traffic_light'') (Some light_message) later
                all_writes_succeed started))
      ''priority_vehicles'' = vehicleData started ''priority_vehicles''"
proof -
  have before: "vehicleData started ''green_light_duration'' = JNum 20"
    "vehicleData started ''priority_vehicles'' = JNum 0"
    by (simp_all add: started_def initial_state_def initial_vehicleData_def no_props_def)
  have msg: "field light_message ''green_light_duration'' = JNum 45"
    "field light_message ''vehicles_waiting'' = JNum 0"
    "field light_message ''priority_vehicles'' = JUndefined"
    by (simp_all add: light_message_def no_props_def field_def)
  from before msg
    C7_truthy_replace [of light_message later all_writes_succeed started]
  show ?thesis by simp
qed

text \<open>
  C8, as stated: a message \<open>{count: 7}\<close> on the topic of trucks changes the truck entry of
  \<open>vehicles_by_type\<close> and \<open>truck_count\<close> and no other field of the telemetry record. The
  handler also writes \<open>timestamp\<close>: on the server started at one time, the message handled
  five seconds later changes that field.
\<close>

theorem C8_counterexample:
  "vehicleData started ''timestamp'' = JStr (iso boot) \<and>
   vehicleData
      (after (on_message (MQTT_TOPIC_BASE @ ''/truck'') (Some truck_message) later
                all_writes_succeed started))
      ''timestamp'' = JStr (iso later) \<and>
   JStr (iso later) \<noteq> JStr (iso boot)"
  by (simp add: started_def initial_state_def initial_vehicleData_def no_props_def boot_def later_def
      truck_message_def on_message_def MQTT_TOPIC_BASE_def field_def broadcast_frame Let_def)

text \<open>
  C8, amended: while \<open>vehicles_by_type\<close> is an object (as it is from start-up), a message
  \<open>{count: 7}\<close> on the topic of trucks sets the truck entry of \<open>vehicles_by_type\<close> and
  \<open>truck_count\<close> to 7 and \<open>timestamp\<close> to the time of the message; every other field of
  the telemetry record, every other entry of \<open>vehicles_by_type\<close>, the lights and the flow
  record are unchanged.
\<close>

theorem C8_truck_count_frame:
  "vehicleData s ''vehicles_by_type'' = JObj cats \<longrightarrow>
   vehicleData (after (on_message (MQTT_TOPIC_BASE @ ''/truck'') (Some truck_message) now fails s))
     = (vehicleData s)
         (''vehicles_by_type'' := JObj (cats(''truck'' := JNum 7)),
          ''truck_count'' := JNum 7,
          ''timestamp'' := JStr (iso now)) \<and>
   (\<forall>k. k \<notin> {''vehicles_by_type'', ''truck_count'', ''timestamp''} \<longrightarrow>
      vehicleData (after (on_message (MQTT_TOPIC_BASE @ ''/truck'') (Some truck_message) now fails s)) k
        = vehicleData s k) \<and>
   (\<forall>c. c \<noteq> ''truck'' \<longrightarrow>
      field (vehicleData
               (after (on_message (MQTT_TOPIC_BASE @ ''/truck'') (Some truck_message) now fails s))
               ''vehicles_by_type'') c
        = cats c) \<and>
   trafficLights (after (on_message (MQTT_TOPIC_BASE @ ''/truck'') (Some truck_message) now fails s))
     = trafficLights s \<and>
   trafficFlow (after (on_message (MQTT_TOPIC_BASE @ ''/truck'') (Some truck_message) now fails s))
     = trafficFlow s"
proof -
  have vd: "vehicleData (after (on_message (MQTT_TOPIC_BASE @ ''/truck'') (Some truck_message) now fails s))
     = (vehicleData s)
         (''vehicles_by_type'' := JObj (cats(''truck'' := JNum 7)),
          ''truck_count'' := JNum 7,
          ''timestamp'' := JStr (iso now))"
    if "vehicleData s ''vehicles_by_type'' = JObj cats"
    using that
    by (simp add: on_message_def MQTT_TOPIC_BASE_def truck_message_def no_props_def field_def
        broadcast_frame Let_def)
  have rest: "trafficLights (after (on_message (MQTT_TOPIC_BASE @ ''/truck'') (Some truck_message) now fails s))
     = trafficLights s \<and>
   trafficFlow (after (on_message (MQTT_TOPIC_BASE @ ''/truck'') (Some truck_message) now fails s))
     = trafficFlow s"
    if "vehicleData s ''vehicles_by_type'' = JObj cats"
    using that
    by (simp add: on_message_def MQTT_TOPIC_BASE_def truck_message_def no_props_def field_def
        broadcast_frame Let_def)
  show ?thesis
  proof (intro impI conjI allI)
    assume h: "vehicleData s ''vehicles_by_type'' = JObj cats"
    show "vehicleData (after (on_message (MQTT_TOPIC_BASE @ ''/truck'') (Some truck_message) now fails s))
     = (vehicleData s)
         (''vehicles_by_type'' := JObj (cats(''truck'' := JNum 7)),
          ''truck_count'' := JNum 7,
          ''timestamp'' := JStr (iso now))"
      by (rule vd [OF h])
    show "trafficLights (after (on_message (MQTT_TOPIC_BASE @ ''/truck'') (Some truck_message) now fails s))
     = trafficLights s"
      using rest [OF h] by simp
    show "trafficFlow (after (on_message (MQTT_TOPIC_BASE @ ''/truck'') (Some truck_message) now fails s))
     = trafficFlow s"
      using rest [OF h] by simp
  next
    fix k
    assume h: "vehicleData s ''vehicles_by_type'' = JObj cats"
      and k: "k \<notin> {''vehicles_by_type'', ''truck_count'', ''timestamp''}"
    from k show "vehicleData (after (on_message (MQTT_TOPIC_BASE @ ''/truck'') (Some truck_message) now fails s)) k
        = vehicleData s k"
      by (simp add: vd [OF h])
  next
    fix c :: string
    assume h: "vehicleData s ''vehicles_by_type'' = JObj cats" and c: "c \<noteq> ''truck''"
    from c show "field (vehicleData
               (after (on_message (MQTT_TOPIC_BASE @ ''/truck'') (Some truck_message) now fails s))
               ''vehicles_by_type'') c
        = cats c"
      by (simp add: vd [OF h] field_def)
  qed
qed

text \<open>The amended C8 on the started server.\<close>

theorem C8_witness:
  "vehicleData started ''vehicles_by_type'' = JObj initial_counts \<and>
   vehicleData
      (after (on_message (MQTT_TOPIC_BASE @ ''/truck'') (Some truck_message) later
                all_writes_succeed started))
     = (vehicleData started)
         (''vehicles_by_type'' := JObj (initial_counts(''truck'' := JNum 7)),
          ''truck_count'' := JNum 7,
          ''timestamp'' := JStr (iso later)) \<and>
   vehicleData
      (after (on_message (MQTT_TOPIC_BASE @ ''/truck'') (Some truck_message) later
                all_writes_succeed started))
      ''car_count'' = vehicleData started ''car_count'' \<and>
   field (vehicleData
      (after (on_message (MQTT_TOPIC_BASE @ ''/truck'') (Some truck_message) later
                all_writes_succeed started))
      ''vehicles_by_type'') ''car'' = initial_counts ''car''"
proof -
  have obj: "vehicleData started ''vehicles_by_type'' = JObj initial_counts"
    by (simp add: started_def initial_state_def initial_vehicleData_def)
  have key: "''car_count'' \<notin> {''vehicles_by_type'', ''truck_count'', ''timestamp''}"
    by simp
  have cat: "''car'' \<noteq> ''truck''"
    by simp
  note frame = C8_truck_count_frame [of started initial_counts later all_writes_succeed,
      THEN mp, OF obj]
  note whole = frame [THEN conjunct1]
  note others = frame [THEN conjunct2, THEN conjunct1, THEN spec, THEN mp, OF key]
  note entries = frame [THEN conjunct2, THEN conjunct2, THEN conjunct1, THEN spec, THEN mp, OF cat]
  show ?thesis
    by (rule conjI [OF obj conjI [OF whole conjI [OF others entries]]])
qed

section \<open>Light control: the response\<close>

text \<open>
  C10: for every \<open>green\<close> or \<open>red\<close> command on an existing light, and every \<open>toggle\<close> of
  a light that is green or red, the response reports the targeted light yellow: it is
  produced when the handler returns, while the completion that sets the terminal phase is
  still pending.
\<close>

theorem C10_response_reports_yellow:
  "control (key_string i) a now fails s = Inr (control_light i a now fails s) \<and>
   state (light_of i (r_lights (reply (control_light i (JStr ''green'') now fails s)))) = Yellow \<and>
   state (light_of i (r_lights (reply (control_light i (JStr ''red'') now fails s)))) = Yellow \<and>
   (state (get_light i s) \<noteq> Yellow \<longrightarrow>
    state (light_of i (r_lights (reply (control_light i (JStr ''toggle'') now fails s)))) = Yellow) \<and>
   GreenDone i \<in> set (timers (after (control_light i (JStr ''green'') now fails s))) \<and>
   RedDone i \<in> set (timers (after (control_light i (JStr ''red'') now fails s))) \<and>
   (state (get_light i s) = Green \<longrightarrow>
    ToggleRedDone i \<in> set (timers (after (control_light i (JStr ''toggle'') now fails s)))) \<and>
   (state (get_light i s) = Red \<longrightarrow>
    ToggleGreenDone i \<in> set (timers (after (control_light i (JStr ''toggle'') now fails s))))"
proof -
  have g: "state (light_of i (r_lights (reply (control_light i (JStr ''green'') now fails s))))
      = Yellow"
    by (simp add: control_light_def Let_def reply_lights light_simps)
  have r: "state (light_of i (r_lights (reply (control_light i (JStr ''red'') now fails s))))
      = Yellow"
    by (simp add: control_light_def Let_def reply_lights light_simps)
  have t: "state (light_of i (r_lights (reply (control_light i (JStr ''toggle'') now fails s))))
      = Yellow" if "state (get_light i s) \<noteq> Yellow"
    using that by (cases "state (get_light i s)")
      (simp_all add: control_light_def Let_def reply_lights light_simps)
  have pg: "GreenDone i \<in> set (timers (after (control_light i (JStr ''green'') now fails s)))"
    by (simp add: control_light_def Let_def after_respond broadcast_frame timers_frame)
  have pr: "RedDone i \<in> set (timers (after (control_light i (JStr ''red'') now fails s)))"
    by (simp add: control_light_def Let_def after_respond broadcast_frame timers_frame)
  have ptr: "ToggleRedDone i \<in> set (timers (after (control_light i (JStr ''toggle'') now fails s)))"
    if "state (get_light i s) = Green"
    using that by (simp add: control_light_def Let_def after_respond broadcast_frame timers_frame)
  have ptg: "ToggleGreenDone i \<in> set (timers (after (control_light i (JStr ''toggle'') now fails s)))"
    if "state (get_light i s) = Red"
    using that by (simp add: control_light_def Let_def after_respond broadcast_frame timers_frame)
  from route_control g r t pg pr ptr ptg show ?thesis by blast
qed

text \<open>C10 for a toggle of the red \<open>light1\<close> of the started server.\<close>

theorem C10_witness:
  "state (get_light Light1 started) \<noteq> Yellow \<and>
   state (get_light Light1 started) = Red \<and>
   state (light_of Light1
      (r_lights (reply (control_light Light1 (JStr ''toggle'') later all_writes_succeed started))))
     = Yellow \<and>
   ToggleGreenDone Light1 \<in>
     set (timers (after (control_light Light1 (JStr ''toggle'') later all_writes_succeed started)))"
proof -
  have red: "state (get_light Light1 started) = Red"
    by (simp add: started_def initial_state_def get_light_def)
  with C10_response_reports_yellow [of Light1 "JStr ''toggle''" later all_writes_succeed started]
  show ?thesis by simp
qed

end
